theory Spec2Isabelle
  imports Complex_Main "HOL-Library.Multiset"
begin

section \<open>The bonus-potential cubing calculator (frontend/src/App.tsx)\<close>

text \<open>
  The calculator is one React component. Its engine is a handful of closures inside
  \<^verbatim>\<open>App\<close>: \<^verbatim>\<open>cleanPotentialName\<close>, \<^verbatim>\<open>potentialToFd\<close>,
  \<^verbatim>\<open>computeMultiplicativeFd\<close> and, inside \<^verbatim>\<open>handleCalculate\<close>, the catalog
  filter, \<^verbatim>\<open>findPot\<close>, \<^verbatim>\<open>isCd\<close>, \<^verbatim>\<open>toCand\<close>, \<^verbatim>\<open>calcProb\<close>,
  \<^verbatim>\<open>geomPercentile\<close> and \<^verbatim>\<open>buildResult\<close>. Each becomes a HOL function of the
  same name; what a closure reads from the component (the React state, the imported
  JSON files) becomes an explicit argument.

  Numbers. A JavaScript \<^verbatim>\<open>number\<close> is modelled as a \<^typ>\<open>real\<close>: the theory is about
  the arithmetic the code writes down, not about binary64 rounding. The two non-numbers
  the code handles on purpose are kept as values: \<^verbatim>\<open>NaN\<close> out of
  \<^verbatim>\<open>parseInt(level)\<close> is \<open>None\<close> in an \<^typ>\<open>int option\<close>, and \<^verbatim>\<open>Infinity\<close>
  out of \<^verbatim>\<open>geomPercentile\<close> is a constructor of its result type.
\<close>

subsection \<open>Data\<close>

text \<open>\<^verbatim>\<open>levelRange?: { min?: number; max?: number }\<close>\<close>

record levelRange =
  lr_min :: "real option"
  lr_max :: "real option"

text \<open>\<^verbatim>\<open>interface BonusPotentialEntry\<close>; an optional field is an \<open>option\<close>.\<close>

record BonusPotentialEntry =
  potential :: string
  itemType :: string
  tier :: string
  probability :: real
  levelRange :: "levelRange option"
  statType :: "string option"
  statValue :: "real option"

text \<open>
  \<^verbatim>\<open>type StatValues = Record<string, { value: string; fd: string }>\<close>. The two strings
  are the contents of number inputs, read only through
  \<^verbatim>\<open>parseFloat(s || '0')\<close>. A field is modelled by what that expression sees:
  \<open>None\<close> for the empty (falsy) string, \<open>Some r\<close> for a text that \<^verbatim>\<open>parseFloat\<close>
  reads as the number \<open>r\<close>.
\<close>

record StatInput =
  sv_value :: "real option"
  sv_fd :: "real option"

type_synonym StatValues = "string \<rightharpoonup> StatInput"

text \<open>One profile of \<^verbatim>\<open>config.tierWeights\<close> (\<^verbatim>\<open>bright\<close>, \<^verbatim>\<open>glowing\<close>).\<close>

record TierWeights =
  line2UniqueW :: real
  line2LegW :: real
  line3UniqueW :: real
  line3LegW :: real

text \<open>
  What the code reads from \<^verbatim>\<open>config.json\<close>, a file that is not part of the sources
  at hand: it is an argument of the model. \<^verbatim>\<open>PER_9_STATS\<close> is a \<^verbatim>\<open>Set\<close> used only
  through \<^verbatim>\<open>has\<close>.
\<close>

record Config =
  statAliases :: "string \<rightharpoonup> string"
  per9Stats :: "string list"
  bright :: TierWeights
  glowing :: TierWeights

subsection \<open>\<^verbatim>\<open>computeMultiplicativeFd\<close>\<close>

text \<open>
  \<^verbatim>\<open>let product = 1; for (const fd of fds) product *= 1 + fd / 100;
  return (product - 1) * 100;\<close>
\<close>

definition computeMultiplicativeFd :: "real list \<Rightarrow> real" where
  "computeMultiplicativeFd fds =
     (foldl (\<lambda>product fd. product * (1 + fd / 100)) 1 fds - 1) * 100"

subsection \<open>\<^verbatim>\<open>cleanPotentialName\<close>\<close>

text \<open>
  \<^verbatim>\<open>name.replace(/(\d+% chance to recover [HM]P when attacking\.)\s*\d+/, '$1')\<close>:
  the leftmost match of the pattern is replaced by its first group. Strings are taken
  to be ASCII, so \<^verbatim>\<open>\d\<close> is a decimal digit and \<^verbatim>\<open>\s\<close> one of tab, line
  feed, vertical tab, form feed, carriage return and space.

  \<open>matchRecover s\<close> matches the pattern at the start of \<open>s\<close> and returns the first
  group with the text after the match. Every repetition of the pattern is followed by a
  character outside its class (or by the end of the pattern), so the greedy match is
  the only one.
\<close>

definition isDigit :: "char \<Rightarrow> bool" where
  "isDigit c = ((of_char c :: nat) \<in> {48..57})"

definition isSpace :: "char \<Rightarrow> bool" where
  "isSpace c = ((of_char c :: nat) \<in> {9, 10, 11, 12, 13, 32})"

fun stripPrefix :: "string \<Rightarrow> string \<Rightarrow> string option" where
  "stripPrefix [] s = Some s"
| "stripPrefix (p # ps) [] = None"
| "stripPrefix (p # ps) (c # cs) = (if p = c then stripPrefix ps cs else None)"

definition matchRecover :: "string \<Rightarrow> (string \<times> string) option" where
  "matchRecover s =
     (let ds = takeWhile isDigit s in
      if ds = [] then None
      else case stripPrefix ''% chance to recover '' (dropWhile isDigit s) of
        None \<Rightarrow> None
      | Some r1 \<Rightarrow>
          (case r1 of
             [] \<Rightarrow> None
           | c # r2 \<Rightarrow>
               if c \<noteq> CHR ''H'' \<and> c \<noteq> CHR ''M'' then None
               else case stripPrefix ''P when attacking.'' r2 of
                 None \<Rightarrow> None
               | Some r3 \<Rightarrow>
                   (let r4 = dropWhile isSpace r3 in
                    if takeWhile isDigit r4 = [] then None
                    else Some (ds @ ''% chance to recover '' @ [c] @ ''P when attacking.'',
                               dropWhile isDigit r4))))"

fun cleanPotentialName :: "string \<Rightarrow> string" where
  "cleanPotentialName [] = []"
| "cleanPotentialName (c # cs) =
     (case matchRecover (c # cs) of
        Some (g, rest) \<Rightarrow> g @ rest
      | None \<Rightarrow> c # cleanPotentialName cs)"

subsection \<open>The component's state\<close>

text \<open>
  The \<^verbatim>\<open>useState\<close> values the engine reads. \<^verbatim>\<open>level\<close> and \<^verbatim>\<open>charLevel\<close> are
  strings read only through \<^verbatim>\<open>parseInt\<close>: the model holds the value
  \<^verbatim>\<open>parseInt\<close> returns. For \<^verbatim>\<open>level\<close> the code tests \<^verbatim>\<open>isNaN\<close>, so \<open>None\<close>
  stands for \<^verbatim>\<open>NaN\<close>; \<^verbatim>\<open>charLevel\<close> is taken to hold an integer.
\<close>

record Inputs =
  selectedItemType :: string
  level :: "int option"
  charLevel :: int
  line1 :: string
  line2 :: string
  line3 :: string
  skillCooldown :: bool
  statValues :: StatValues

subsection \<open>\<^verbatim>\<open>potentialToFd\<close>\<close>

text \<open>
  \<^verbatim>\<open>parseFloat(statValues[lookupStat]?.value || '0')\<close> and the same for \<^verbatim>\<open>fd\<close>:
  a missing key and an empty string both read as 0.
\<close>

definition userVal :: "StatValues \<Rightarrow> string \<Rightarrow> real" where
  "userVal sv lookupStat =
     (case sv lookupStat of
        None \<Rightarrow> 0
      | Some e \<Rightarrow> (case sv_value e of None \<Rightarrow> 0 | Some r \<Rightarrow> r))"

definition userFd :: "StatValues \<Rightarrow> string \<Rightarrow> real" where
  "userFd sv lookupStat =
     (case sv lookupStat of
        None \<Rightarrow> 0
      | Some e \<Rightarrow> (case sv_fd e of None \<Rightarrow> 0 | Some r \<Rightarrow> r))"

text \<open>\<^verbatim>\<open>STAT_ALIASES[st] ?? st\<close>\<close>

definition lookupStat :: "Config \<Rightarrow> string \<Rightarrow> string" where
  "lookupStat cfg st = (case statAliases cfg st of None \<Rightarrow> st | Some a \<Rightarrow> a)"

text \<open>
  \<^verbatim>\<open>PER_9_STATS.has(st) ? sv * Math.floor(parseInt(charLevel) / 9) : sv\<close>
\<close>

definition effectiveValue :: "Config \<Rightarrow> Inputs \<Rightarrow> string \<Rightarrow> real \<Rightarrow> real" where
  "effectiveValue cfg inp st sv =
     (if st \<in> set (per9Stats cfg)
      then sv * of_int \<lfloor>of_int (charLevel inp) / (9 :: real)\<rfloor>
      else sv)"

text \<open>
  The function, in the order of its lines: \<^verbatim>\<open>!st\<close> holds for a missing and for an
  empty \<^verbatim>\<open>statType\<close>, \<^verbatim>\<open>sv == null\<close> for a missing \<^verbatim>\<open>statValue\<close>.
\<close>

definition potentialToFd :: "Config \<Rightarrow> Inputs \<Rightarrow> BonusPotentialEntry \<Rightarrow> real" where
  "potentialToFd cfg inp entry =
     (case statType entry of
        None \<Rightarrow> 0
      | Some st \<Rightarrow>
          (case statValue entry of
             None \<Rightarrow> 0
           | Some sv \<Rightarrow>
               if st = [] then 0
               else if st = ''Skill Cooldown'' then 0
               else if userVal (statValues inp) (lookupStat cfg st) = 0 then 0
               else effectiveValue cfg inp st sv
                    * (userFd (statValues inp) (lookupStat cfg st)
                       / userVal (statValues inp) (lookupStat cfg st))))"

text \<open>
  HOL's division is total (\<open>x / 0 = 0\<close>), JavaScript's gives \<^verbatim>\<open>Infinity\<close> or
  \<^verbatim>\<open>NaN\<close> there. To see that \<open>potentialToFd\<close> never divides by zero, the same
  function is written a second time with a division that fails on a zero divisor.
\<close>

definition js_divide :: "real \<Rightarrow> real \<Rightarrow> real option" where
  "js_divide a b = (if b = 0 then None else Some (a / b))"

definition potentialToFd_checked ::
  "Config \<Rightarrow> Inputs \<Rightarrow> BonusPotentialEntry \<Rightarrow> real option" where
  "potentialToFd_checked cfg inp entry =
     (case statType entry of
        None \<Rightarrow> Some 0
      | Some st \<Rightarrow>
          (case statValue entry of
             None \<Rightarrow> Some 0
           | Some sv \<Rightarrow>
               if st = [] then Some 0
               else if st = ''Skill Cooldown'' then Some 0
               else if userVal (statValues inp) (lookupStat cfg st) = 0 then Some 0
               else map_option (\<lambda>ratio. effectiveValue cfg inp st sv * ratio)
                      (js_divide (userFd (statValues inp) (lookupStat cfg st))
                                 (userVal (statValues inp) (lookupStat cfg st)))))"

subsection \<open>The catalog filter\<close>

text \<open>
  \<^verbatim>\<open>const min = p.levelRange?.min ?? 0; const max = p.levelRange?.max ?? Infinity;
  return lvl >= min && lvl <= max;\<close>
  The upper bound \<^verbatim>\<open>Infinity\<close> is \<open>None\<close>. The effect that lists the options
  evaluates the same test with \<^verbatim>\<open>lvl = NaN\<close>, where both comparisons are false.
\<close>

definition rangeMin :: "BonusPotentialEntry \<Rightarrow> real" where
  "rangeMin p =
     (case levelRange p of
        None \<Rightarrow> 0
      | Some r \<Rightarrow> (case lr_min r of None \<Rightarrow> 0 | Some m \<Rightarrow> m))"

definition rangeMax :: "BonusPotentialEntry \<Rightarrow> real option" where
  "rangeMax p = (case levelRange p of None \<Rightarrow> None | Some r \<Rightarrow> lr_max r)"

definition inRange :: "int option \<Rightarrow> BonusPotentialEntry \<Rightarrow> bool" where
  "inRange lvl p =
     (case lvl of
        None \<Rightarrow> False
      | Some l \<Rightarrow>
          of_int l \<ge> rangeMin p
          \<and> (case rangeMax p of None \<Rightarrow> True | Some m \<Rightarrow> of_int l \<le> m))"

text \<open>
  \<^verbatim>\<open>bonusPotentialsData.filter((p) => { if (p.itemType !== itemType) return false;
  ... })\<close>, with the catalog (\<^verbatim>\<open>bonus_potentials.json\<close>) as an argument.
\<close>

definition allPots ::
  "BonusPotentialEntry list \<Rightarrow> string \<Rightarrow> int option \<Rightarrow> BonusPotentialEntry list" where
  "allPots catalog it lvl = filter (\<lambda>p. itemType p = it \<and> inRange lvl p) catalog"

definition legendaryPots :: "BonusPotentialEntry list \<Rightarrow> BonusPotentialEntry list" where
  "legendaryPots pots = filter (\<lambda>p. tier p = ''legendary'') pots"

definition uniquePots :: "BonusPotentialEntry list \<Rightarrow> BonusPotentialEntry list" where
  "uniquePots pots = filter (\<lambda>p. tier p = ''unique'') pots"

subsection \<open>The baseline\<close>

text \<open>
  \<^verbatim>\<open>allPots.find(name and tier) || allPots.find(name)\<close>; \<^verbatim>\<open>find\<close> returns the
  first match or \<^verbatim>\<open>undefined\<close>, and an entry is truthy.
\<close>

definition orElse :: "'a option \<Rightarrow> 'a option \<Rightarrow> 'a option" where
  "orElse a b = (case a of None \<Rightarrow> b | Some x \<Rightarrow> Some x)"

definition findPot ::
  "BonusPotentialEntry list \<Rightarrow> string \<Rightarrow> string \<Rightarrow> BonusPotentialEntry option" where
  "findPot pots potName t =
     orElse (find (\<lambda>p. cleanPotentialName (potential p) = potName \<and> tier p = t) pots)
            (find (\<lambda>p. cleanPotentialName (potential p) = potName) pots)"

text \<open>\<^verbatim>\<open>(p?: BonusPotentialEntry) => p?.statType === 'Skill Cooldown'\<close>\<close>

definition isCd :: "BonusPotentialEntry option \<Rightarrow> bool" where
  "isCd p = (case p of None \<Rightarrow> False | Some e \<Rightarrow> statType e = Some ''Skill Cooldown'')"

definition sel1 :: "BonusPotentialEntry list \<Rightarrow> Inputs \<Rightarrow> BonusPotentialEntry option" where
  "sel1 pots inp = findPot pots (line1 inp) ''legendary''"

definition sel2 :: "BonusPotentialEntry list \<Rightarrow> Inputs \<Rightarrow> BonusPotentialEntry option" where
  "sel2 pots inp =
     orElse (findPot pots (line2 inp) ''legendary'') (findPot pots (line2 inp) ''unique'')"

definition sel3 :: "BonusPotentialEntry list \<Rightarrow> Inputs \<Rightarrow> BonusPotentialEntry option" where
  "sel3 pots inp =
     orElse (findPot pots (line3 inp) ''legendary'') (findPot pots (line3 inp) ''unique'')"

definition targetCdCount :: "BonusPotentialEntry list \<Rightarrow> Inputs \<Rightarrow> nat" where
  "targetCdCount pots inp =
     (if skillCooldown inp
      then length (filter isCd [sel1 pots inp, sel2 pots inp, sel3 pots inp])
      else 0)"

text \<open>\<^verbatim>\<open>[sel1, sel2, sel3].map((p) => p && !isCd(p) ? potentialToFd(p) : 0)\<close>\<close>

definition targetFds :: "Config \<Rightarrow> BonusPotentialEntry list \<Rightarrow> Inputs \<Rightarrow> real list" where
  "targetFds cfg pots inp =
     map (\<lambda>p. case p of
                 None \<Rightarrow> 0
               | Some e \<Rightarrow> if \<not> isCd p then potentialToFd cfg inp e else 0)
         [sel1 pots inp, sel2 pots inp, sel3 pots inp]"

definition targetFd :: "Config \<Rightarrow> BonusPotentialEntry list \<Rightarrow> Inputs \<Rightarrow> real" where
  "targetFd cfg pots inp = computeMultiplicativeFd (targetFds cfg pots inp)"

subsection \<open>\<^verbatim>\<open>toCand\<close> and \<^verbatim>\<open>calcProb\<close>\<close>

text \<open>\<^verbatim>\<open>type Cand = { fd: number; cd: number; prob: number }\<close>\<close>

record Cand =
  fd :: real
  cd :: nat
  prob :: real

definition toCand :: "Config \<Rightarrow> Inputs \<Rightarrow> BonusPotentialEntry \<Rightarrow> real \<Rightarrow> Cand" where
  "toCand cfg inp p weight =
     \<lparr> fd = (if isCd (Some p) then 0 else potentialToFd cfg inp p),
       cd = (if skillCooldown inp \<and> isCd (Some p) then 1 else 0),
       prob = probability p * weight \<rparr>"

definition line1Cands :: "Config \<Rightarrow> Inputs \<Rightarrow> BonusPotentialEntry list \<Rightarrow> Cand list" where
  "line1Cands cfg inp pots = map (\<lambda>p. toCand cfg inp p 1) (legendaryPots pots)"

definition line2Cands ::
  "Config \<Rightarrow> Inputs \<Rightarrow> BonusPotentialEntry list \<Rightarrow> TierWeights \<Rightarrow> Cand list" where
  "line2Cands cfg inp pots weights =
     map (\<lambda>p. toCand cfg inp p (line2UniqueW weights)) (uniquePots pots)
     @ map (\<lambda>p. toCand cfg inp p (line2LegW weights)) (legendaryPots pots)"

definition line3Cands ::
  "Config \<Rightarrow> Inputs \<Rightarrow> BonusPotentialEntry list \<Rightarrow> TierWeights \<Rightarrow> Cand list" where
  "line3Cands cfg inp pots weights =
     map (\<lambda>p. toCand cfg inp p (line3UniqueW weights)) (uniquePots pots)
     @ map (\<lambda>p. toCand cfg inp p (line3LegW weights)) (legendaryPots pots)"

text \<open>The body of the innermost loop, as a function of the running \<^verbatim>\<open>totalProb\<close>.\<close>

definition comboStep :: "nat \<Rightarrow> real \<Rightarrow> Cand \<Rightarrow> Cand \<Rightarrow> Cand \<Rightarrow> real \<Rightarrow> real" where
  "comboStep tCd tFd c1 c2 c3 totalProb =
     (let comboCd = cd c1 + cd c2 + cd c3 in
      if comboCd > tCd then totalProb + prob c1 * prob c2 * prob c3
      else if comboCd = tCd then
        (let comboFd = computeMultiplicativeFd [fd c1, fd c2, fd c3] in
         if comboFd > tFd then totalProb + prob c1 * prob c2 * prob c3 else totalProb)
      else totalProb)"

text \<open>The three nested \<^verbatim>\<open>for ... of\<close> loops, starting from \<^verbatim>\<open>totalProb = 0\<close>.\<close>

definition enumerateCombos :: "nat \<Rightarrow> real \<Rightarrow> Cand list \<Rightarrow> Cand list \<Rightarrow> Cand list \<Rightarrow> real" where
  "enumerateCombos tCd tFd l1 l2 l3 =
     foldl (\<lambda>demo_calc_none_bright c1.
        foldl (\<lambda>demo_calc_str_glow c2.
           foldl (\<lambda>demo_calc_str_cd_glow c3. comboStep tCd tFd c1 c2 c3 demo_calc_str_cd_glow) demo_calc_str_glow l3) demo_calc_none_bright l2) 0 l1"

definition calcProb ::
  "Config \<Rightarrow> Inputs \<Rightarrow> BonusPotentialEntry list \<Rightarrow> TierWeights \<Rightarrow> real" where
  "calcProb cfg inp pots weights =
     enumerateCombos (targetCdCount pots inp) (targetFd cfg pots inp)
       (line1Cands cfg inp pots) (line2Cands cfg inp pots weights)
       (line3Cands cfg inp pots weights)"

subsection \<open>\<^verbatim>\<open>geomPercentile\<close> and \<^verbatim>\<open>buildResult\<close>\<close>

text \<open>A percentile is \<^verbatim>\<open>Infinity\<close> or the integer \<^verbatim>\<open>Math.ceil\<close> returns.\<close>

datatype attempts = Infinity | Finite int

definition geomPercentile :: "real \<Rightarrow> real \<Rightarrow> attempts" where
  "geomPercentile p q =
     (if p \<le> 0 then Infinity
      else if p \<ge> 1 then Finite 1
      else Finite \<lceil>ln (1 - q) / ln (1 - p)\<rceil>)"

text \<open>
  \<^verbatim>\<open>x.toFixed(d)\<close> is a string; \<open>toFixed d x\<close> is the number that string writes:
  \<open>n / 10\<^sup>d\<close> for the integer \<open>n\<close> nearest to \<open>x \<times> 10\<^sup>d\<close>, the larger one on a tie,
  with the sign put back for a negative \<open>x\<close>, and \<open>x\<close> itself from \<open>10\<^sup>2\<^sup>1\<close> on.
\<close>

definition toFixed :: "nat \<Rightarrow> real \<Rightarrow> real" where
  "toFixed d x =
     (if \<bar>x\<bar> \<ge> 10 ^ 21 then x
      else if x < 0 then - (of_int \<lfloor>- x * 10 ^ d + 1 / 2\<rfloor> / 10 ^ d)
      else of_int \<lfloor>x * 10 ^ d + 1 / 2\<rfloor> / 10 ^ d)"

text \<open>
  \<^verbatim>\<open>interface CubeResult\<close>. \<open>shownProbability\<close> is the number before the percent sign
  of \<^verbatim>\<open>probability\<close>; \<open>avgCubes\<close> is \<open>None\<close> for the string \<^verbatim>\<open>'\<infinity>'\<close>.
\<close>

record CubeResult =
  shownProbability :: real
  avgCubes :: "real option"
  p25 :: attempts
  p50 :: attempts
  p75 :: attempts
  p90 :: attempts

definition buildResult :: "real \<Rightarrow> CubeResult" where
  "buildResult pr =
     \<lparr> shownProbability = toFixed 6 (pr * 100),
       avgCubes = (if pr > 0 then Some (toFixed 1 (1 / pr)) else None),
       p25 = geomPercentile pr (25 / 100),
       p50 = geomPercentile pr (50 / 100),
       p75 = geomPercentile pr (75 / 100),
       p90 = geomPercentile pr (90 / 100) \<rparr>"

subsection \<open>\<^verbatim>\<open>handleCalculate\<close>\<close>

text \<open>
  The handler's only effect is on the two result states. With an empty item type or
  a level that is not a number it returns at once and sets neither.
\<close>

record Results =
  brightResult :: "CubeResult option"
  glowingResult :: "CubeResult option"

definition handleCalculate ::
  "Config \<Rightarrow> BonusPotentialEntry list \<Rightarrow> Inputs \<Rightarrow> Results \<Rightarrow> Results" where
  "handleCalculate cfg catalog inp res =
     (if selectedItemType inp = [] \<or> level inp = None then res
      else
        (let pots = allPots catalog (selectedItemType inp) (level inp) in
         \<lparr> brightResult = Some (buildResult (calcProb cfg inp pots (bright cfg))),
           glowingResult = Some (buildResult (calcProb cfg inp pots (glowing cfg))) \<rparr>))"

subsection \<open>The catalog filter, as the specification words it\<close>

text \<open>
  An entry is eligible when its item category is the requested one and its level
  range contains the item level, a missing lower bound being 0 and a missing upper
  bound \<open>+\<infinity>\<close>. This is the reading the model of the code is compared with.
\<close>

fun spec_contains :: "real option \<Rightarrow> real option \<Rightarrow> int \<Rightarrow> bool" where
  "spec_contains None None l = (0 \<le> l)"
| "spec_contains (Some a) None l = (a \<le> of_int l)"
| "spec_contains None (Some b) l = (0 \<le> l \<and> of_int l \<le> b)"
| "spec_contains (Some a) (Some b) l = (a \<le> of_int l \<and> of_int l \<le> b)"

definition spec_eligible :: "string \<Rightarrow> int \<Rightarrow> BonusPotentialEntry \<Rightarrow> bool" where
  "spec_eligible it l p =
     (itemType p = it
      \<and> (case levelRange p of
            None \<Rightarrow> 0 \<le> l
          | Some r \<Rightarrow> spec_contains (lr_min r) (lr_max r) l))"

subsection \<open>The enumeration, as the specification words it\<close>








subsection \<open>A small catalog for concrete runs\<close>

text \<open>
  One alias whose raw name is a per-9-levels stat while its canonical name is not,
  a user who entered a value for \<^verbatim>\<open>STR\<close>, a zero for \<^verbatim>\<open>DEX\<close> and nothing else,
  and three hat potentials, two of them under one display name.
\<close>

definition demoBright :: TierWeights where
  "demoBright = \<lparr> line2UniqueW = 1, line2LegW = 1, line3UniqueW = 1, line3LegW = 1 \<rparr>"

definition demoGlowing :: TierWeights where
  "demoGlowing =
     \<lparr> line2UniqueW = 4 / 5, line2LegW = 1 / 5, line3UniqueW = 4 / 5, line3LegW = 1 / 5 \<rparr>"

definition demoConfig :: Config where
  "demoConfig =
     \<lparr> statAliases = [''STR per 9'' \<mapsto> ''STR''],
       per9Stats = [''STR per 9''],
       bright = demoBright,
       glowing = demoGlowing \<rparr>"

definition demoInputs :: Inputs where
  "demoInputs =
     \<lparr> selectedItemType = ''Hat'', level = Some 150, charLevel = 260,
       line1 = [], line2 = [], line3 = [], skillCooldown = False,
       statValues = [''STR'' \<mapsto> \<lparr> sv_value = Some 10, sv_fd = Some 5 \<rparr>,
                     ''DEX'' \<mapsto> \<lparr> sv_value = Some 0, sv_fd = Some 5 \<rparr>] \<rparr>"

definition mkEntry :: "string \<Rightarrow> string \<Rightarrow> real \<Rightarrow> string \<Rightarrow> real \<Rightarrow> BonusPotentialEntry" where
  "mkEntry name t pr st sv =
     \<lparr> potential = name, itemType = ''Hat'', tier = t, probability = pr,
       levelRange = None, statType = Some st, statValue = Some sv \<rparr>"

definition demoPots :: "BonusPotentialEntry list" where
  "demoPots =
     [mkEntry ''STR +9'' ''unique'' 1 ''STR'' 9,
      mkEntry ''STR +9'' ''legendary'' (1 / 2) ''STR'' 12,
      mkEntry ''Skill Cooldown -1'' ''legendary'' (1 / 2) ''Skill Cooldown'' 1]"




text \<open>The result states before any calculation, and the result for probability 0.\<close>

definition noResults :: Results where
  "noResults = \<lparr> brightResult = None, glowingResult = None \<rparr>"

definition zeroResult :: CubeResult where
  "zeroResult = \<lparr> shownProbability = 0, avgCubes = None, p25 = Infinity, p50 = Infinity,
                   p75 = Infinity, p90 = Infinity \<rparr>"

section \<open>Properties\<close>

subsection \<open>The combination aggregator\<close>







subsection \<open>Stat conversion\<close>

lemma potentialToFd_checked_eq:
  "potentialToFd_checked cfg inp e = Some (potentialToFd cfg inp e)"
  by (simp add: potentialToFd_checked_def potentialToFd_def js_divide_def
        split: option.splits)

lemma userVal_zero_or_absent:
  assumes "case sv k of None \<Rightarrow> True | Some e \<Rightarrow> sv_value e = None \<or> sv_value e = Some 0"
  shows "userVal sv k = 0"
  using assms by (auto simp: userVal_def split: option.splits)

text \<open>
  Claim C6. When the user's value for the entry's alias-resolved stat is 0 or absent
  (no row for the stat, or an empty value field), \<open>potentialToFd\<close> returns 0 whatever
  the entry's \<open>statValue\<close>; the variant with the failing division returns 0 as well, so
  the division is not reached.
\<close>

theorem potentialToFd_zero_magnitude:
  assumes "\<forall>st. statType e = Some st \<longrightarrow>
             (case statValues inp (lookupStat cfg st) of
                None \<Rightarrow> True
              | Some i \<Rightarrow> sv_value i = None \<or> sv_value i = Some 0)"
  shows "potentialToFd cfg inp e = 0 \<and> potentialToFd_checked cfg inp e = Some 0"
proof -
  have "potentialToFd cfg inp e = 0"
  proof (cases "statType e")
    case None
    then show ?thesis by (simp add: potentialToFd_def)
  next
    case (Some st)
    with assms have "userVal (statValues inp) (lookupStat cfg st) = 0"
      by (intro userVal_zero_or_absent) simp
    with Some show ?thesis
      by (simp add: potentialToFd_def split: option.splits)
  qed
  then show ?thesis
    by (simp add: potentialToFd_checked_eq)
qed

theorem potentialToFd_zero_magnitude_witness:
  "potentialToFd demoConfig demoInputs (mkEntry ''DEX +12'' ''legendary'' 1 ''DEX'' 12) = 0
   \<and> potentialToFd_checked demoConfig demoInputs (mkEntry ''DEX +12'' ''legendary'' 1 ''DEX'' 12) = Some 0
   \<and> potentialToFd demoConfig demoInputs (mkEntry ''LUK +12'' ''legendary'' 1 ''LUK'' 12) = 0
   \<and> potentialToFd demoConfig demoInputs (mkEntry ''STR +12'' ''legendary'' 1 ''STR'' 12) = 6"
proof -
  have "potentialToFd demoConfig demoInputs (mkEntry ''DEX +12'' ''legendary'' 1 ''DEX'' 12) = 0
   \<and> potentialToFd_checked demoConfig demoInputs (mkEntry ''DEX +12'' ''legendary'' 1 ''DEX'' 12) = Some 0"
    by (rule potentialToFd_zero_magnitude)
       (simp add: mkEntry_def demoConfig_def demoInputs_def lookupStat_def)
  moreover have "potentialToFd demoConfig demoInputs (mkEntry ''LUK +12'' ''legendary'' 1 ''LUK'' 12) = 0"
    using potentialToFd_zero_magnitude [of "mkEntry ''LUK +12'' ''legendary'' 1 ''LUK'' 12" demoInputs demoConfig]
    by (simp add: mkEntry_def demoConfig_def demoInputs_def lookupStat_def)
  moreover have "potentialToFd demoConfig demoInputs (mkEntry ''STR +12'' ''legendary'' 1 ''STR'' 12) = 6"
    by (simp add: potentialToFd_def mkEntry_def demoConfig_def demoInputs_def lookupStat_def
          userVal_def userFd_def effectiveValue_def)
  ultimately show ?thesis by blast
qed

text \<open>
  Claim C10. The alias is used for the lookup in \<open>statValues\<close> and nowhere else: the
  test for \<^verbatim>\<open>Skill Cooldown\<close> and the membership in \<^verbatim>\<open>PER_9_STATS\<close> read the
  entry's raw \<open>statType\<close>. An entry whose raw \<open>statType\<close> is in the set has its
  \<open>statValue\<close> multiplied by \<open>\<lfloor>charLevel / 9\<rfloor>\<close>, one whose raw \<open>statType\<close> is not in the
  set does not, whatever the canonical name is.
\<close>

theorem potentialToFd_raw_statType:
  assumes "statType e = Some st" and "statValue e = Some sv" and "st \<noteq> []"
  shows "potentialToFd cfg inp e =
           (if st = ''Skill Cooldown'' \<or> userVal (statValues inp) (lookupStat cfg st) = 0 then 0
            else (if st \<in> set (per9Stats cfg) then sv * of_int (charLevel inp div 9) else sv)
                 * (userFd (statValues inp) (lookupStat cfg st)
                    / userVal (statValues inp) (lookupStat cfg st)))"
proof -
  have "\<lfloor>of_int (charLevel inp) / (9 :: real)\<rfloor> = charLevel inp div 9"
    using floor_divide_of_int_eq [of "charLevel inp" 9, where ?'a = real] by simp
  then show ?thesis
    using assms by (simp add: potentialToFd_def effectiveValue_def)
qed

theorem potentialToFd_raw_statType_witness:
  "potentialToFd demoConfig demoInputs (mkEntry ''STR +1 per 9 levels'' ''legendary'' 1 ''STR per 9'' 1) = 14
   \<and> lookupStat demoConfig ''STR per 9'' = ''STR''
   \<and> ''STR per 9'' \<in> set (per9Stats demoConfig)
   \<and> ''STR'' \<notin> set (per9Stats demoConfig)"
  using potentialToFd_raw_statType [of "mkEntry ''STR +1 per 9 levels'' ''legendary'' 1 ''STR per 9'' 1"
      "''STR per 9''" 1 demoConfig demoInputs]
  by (simp add: mkEntry_def demoConfig_def demoInputs_def lookupStat_def userVal_def userFd_def)


subsection \<open>Catalog access\<close>

lemma inRange_spec:
  "inRange (Some l) p =
     (case levelRange p of None \<Rightarrow> 0 \<le> l | Some r \<Rightarrow> spec_contains (lr_min r) (lr_max r) l)"
proof (cases "levelRange p")
  case None
  then show ?thesis by (simp add: inRange_def rangeMin_def rangeMax_def)
next
  case (Some r)
  then show ?thesis
    by (cases "lr_min r"; cases "lr_max r") (simp_all add: inRange_def rangeMin_def rangeMax_def)
qed

text \<open>
  Claim C8. For a level that is a number, the filter returns exactly the catalog
  entries, in catalog order, whose \<open>itemType\<close> equals the requested one and whose level
  range contains the level, with a missing minimum read as 0 and a missing maximum as
  \<open>+\<infinity>\<close>.
\<close>

theorem allPots_exact:
  "allPots catalog it (Some l) = filter (spec_eligible it l) catalog
   \<and> set (allPots catalog it (Some l)) = {p \<in> set catalog. spec_eligible it l p}"
proof -
  have "allPots catalog it (Some l) = filter (spec_eligible it l) catalog"
    unfolding allPots_def spec_eligible_def by (simp add: inRange_spec)
  then show ?thesis by simp
qed

subsection \<open>The baseline lookup\<close>

lemma find_first_match:
  assumes "p \<in> set pots" and "P p"
  shows "\<exists>q. find P pots = Some q \<and> P q \<and> q \<in> set pots"
proof (cases "find P pots")
  case None
  with assms show ?thesis by (auto simp: find_None_iff)
next
  case (Some q)
  then show ?thesis
    by (auto simp: find_Some_iff)
qed

text \<open>
  Claim C9. When the eligible entries hold a legendary entry under the selected display
  name (after \<open>cleanPotentialName\<close>), \<open>findPot\<close> with tier \<^verbatim>\<open>legendary\<close> returns the
  first such legendary entry, also when entries of other tiers carry the same name and
  come earlier; lines 1, 2 and 3 all resolve to it.
\<close>

theorem findPot_prefers_legendary:
  assumes "p \<in> set pots"
    and "cleanPotentialName (potential p) = name"
    and "tier p = ''legendary''"
  shows "\<exists>q. find (\<lambda>e. cleanPotentialName (potential e) = name \<and> tier e = ''legendary'') pots
               = Some q
           \<and> q \<in> set pots \<and> cleanPotentialName (potential q) = name \<and> tier q = ''legendary''
           \<and> findPot pots name ''legendary'' = Some q
           \<and> (line1 inp = name \<longrightarrow> sel1 pots inp = Some q)
           \<and> (line2 inp = name \<longrightarrow> sel2 pots inp = Some q)
           \<and> (line3 inp = name \<longrightarrow> sel3 pots inp = Some q)"
proof -
  let ?P = "\<lambda>e. cleanPotentialName (potential e) = name \<and> tier e = ''legendary''"
  from assms have "?P p" by simp
  with assms(1) obtain q where q: "find ?P pots = Some q" "?P q" "q \<in> set pots"
    using find_first_match [of p pots ?P] by blast
  then have "findPot pots name ''legendary'' = Some q"
    by (simp add: findPot_def orElse_def)
  with q show ?thesis
    by (simp add: sel1_def sel2_def sel3_def orElse_def)
qed

theorem findPot_prefers_legendary_witness:
  "mkEntry ''STR +9'' ''legendary'' (1 / 2) ''STR'' 12 \<in> set demoPots
   \<and> sel2 demoPots (demoInputs\<lparr>line2 := ''STR +9''\<rparr>)
       = Some (mkEntry ''STR +9'' ''legendary'' (1 / 2) ''STR'' 12)
   \<and> find (\<lambda>e. cleanPotentialName (potential e) = ''STR +9'') demoPots
       = Some (mkEntry ''STR +9'' ''unique'' 1 ''STR'' 9)"
proof -
  let ?leg = "mkEntry ''STR +9'' ''legendary'' (1 / 2) ''STR'' 12"
  let ?inp = "demoInputs\<lparr>line2 := ''STR +9''\<rparr>"
  have mem: "?leg \<in> set demoPots"
    by (simp add: demoPots_def)
  have name: "cleanPotentialName (potential ?leg) = ''STR +9''"
    by (simp add: mkEntry_def matchRecover_def isDigit_def)
  have leg: "tier ?leg = ''legendary''"
    by (simp add: mkEntry_def)
  have line: "line2 ?inp = ''STR +9''"
    by simp
  obtain q where
    q: "find (\<lambda>e. cleanPotentialName (potential e) = ''STR +9'' \<and> tier e = ''legendary'')
          demoPots = Some q"
    and s: "line2 ?inp = ''STR +9'' \<longrightarrow> sel2 demoPots ?inp = Some q"
    using findPot_prefers_legendary [OF mem name leg, of ?inp] by blast
  have "find (\<lambda>e. cleanPotentialName (potential e) = ''STR +9'' \<and> tier e = ''legendary'')
          demoPots = Some ?leg"
    by (simp add: demoPots_def mkEntry_def matchRecover_def isDigit_def)
  with q have "q = ?leg" by simp
  with s line have "sel2 demoPots ?inp = Some ?leg" by blast
  moreover have "find (\<lambda>e. cleanPotentialName (potential e) = ''STR +9'') demoPots
       = Some (mkEntry ''STR +9'' ''unique'' 1 ''STR'' 9)"
    by (simp add: demoPots_def mkEntry_def matchRecover_def isDigit_def)
  ultimately show ?thesis using mem by blast
qed

subsection \<open>The outcome enumerator\<close>













subsection \<open>Concrete runs of the enumerator\<close>

lemmas demo_defs = demoConfig_def demoInputs_def demoPots_def mkEntry_def demoGlowing_def demoBright_def
lemmas engine_defs = calcProb_def enumerateCombos_def comboStep_def computeMultiplicativeFd_def
  line1Cands_def line2Cands_def line3Cands_def toCand_def isCd_def legendaryPots_def
  uniquePots_def potentialToFd_def effectiveValue_def userVal_def userFd_def lookupStat_def
  targetCdCount_def targetFd_def targetFds_def sel1_def sel2_def sel3_def findPot_def
  orElse_def matchRecover_def isDigit_def isSpace_def

lemma demo_calc_none_bright: "calcProb demoConfig demoInputs demoPots demoBright = 31 / 8"
  by (simp add: demo_defs engine_defs)

lemma demo_calc_str_glow: "calcProb demoConfig (demoInputs\<lparr>line1 := ''STR +9''\<rparr>) demoPots demoGlowing = 9 / 10"
  by (simp add: demo_defs engine_defs)

lemma demo_calc_str_cd_glow: "calcProb demoConfig (demoInputs\<lparr>line1 := ''STR +9'', skillCooldown := True\<rparr>) demoPots demoGlowing = 1"
  by (simp add: demo_defs engine_defs)









subsection \<open>Bounds on the returned value\<close>















subsection \<open>Monotonicity in the baseline bonus\<close>






subsection \<open>The percentile estimator\<close>






subsection \<open>Missing item type, missing level\<close>

lemma enumerateCombos_no_line1: "enumerateCombos tCd tFd [] l2 l3 = 0"
  by (simp add: enumerateCombos_def)

lemma calcProb_no_legendary:
  assumes "legendaryPots pots = []"
  shows "calcProb cfg inp pots w = 0"
  using assms by (simp add: calcProb_def line1Cands_def enumerateCombos_no_line1)

lemma buildResult_zero:
  "buildResult 0 = \<lparr> shownProbability = 0, avgCubes = None, p25 = Infinity, p50 = Infinity,
                      p75 = Infinity, p90 = Infinity \<rparr>"
  by (simp add: buildResult_def geomPercentile_def toFixed_def)

lemma allPots_negative_level:
  assumes "l < 0" and "\<forall>p\<in>set catalog. 0 \<le> rangeMin p"
  shows "allPots catalog it (Some l) = []"
proof -
  have "\<not> inRange (Some l) p" if "p \<in> set catalog" for p
  proof -
    from that assms(2) have "0 \<le> rangeMin p" by blast
    moreover from assms(1) have "(of_int l :: real) < 0" by simp
    ultimately show ?thesis by (simp add: inRange_def)
  qed
  then show ?thesis
    by (simp add: allPots_def filter_empty_conv)
qed

lemma demo_rangeMin: "\<forall>p\<in>set demoPots. 0 \<le> rangeMin p"
  by (simp add: demoPots_def mkEntry_def rangeMin_def)

text \<open>
  Claim C7, amended. With an empty item type or a level that is not a number,
  \<open>handleCalculate\<close> returns at its guard and leaves both result states as they were.
  The catalog filter selects nothing at such a level, and nothing at a negative level
  when no entry has a negative minimum. Whenever no legendary entry is eligible, both
  results are those of probability 0: shown probability 0, expected attempts
  \<^verbatim>\<open>'\<infinity>'\<close>, all percentiles \<^verbatim>\<open>Infinity\<close>.
\<close>

theorem handleCalculate_degenerate:
  "(selectedItemType inp = [] \<or> level inp = None \<longrightarrow> handleCalculate cfg catalog inp res = res)
   \<and> allPots catalog it None = []
   \<and> (l < 0 \<and> (\<forall>p\<in>set catalog. 0 \<le> rangeMin p) \<longrightarrow> allPots catalog it (Some l) = [])
   \<and> (selectedItemType inp \<noteq> [] \<and> level inp \<noteq> None
        \<and> legendaryPots (allPots catalog (selectedItemType inp) (level inp)) = [] \<longrightarrow>
      handleCalculate cfg catalog inp res =
        \<lparr> brightResult = Some \<lparr> shownProbability = 0, avgCubes = None, p25 = Infinity,
                                 p50 = Infinity, p75 = Infinity, p90 = Infinity \<rparr>,
          glowingResult = Some \<lparr> shownProbability = 0, avgCubes = None, p25 = Infinity,
                                  p50 = Infinity, p75 = Infinity, p90 = Infinity \<rparr> \<rparr>)"
proof -
  have guard: "selectedItemType inp = [] \<or> level inp = None \<longrightarrow>
                 handleCalculate cfg catalog inp res = res"
    by (auto simp: handleCalculate_def)
  have nan: "allPots catalog it None = []"
    by (simp add: allPots_def inRange_def)
  have neg: "l < 0 \<and> (\<forall>p\<in>set catalog. 0 \<le> rangeMin p) \<longrightarrow> allPots catalog it (Some l) = []"
    using allPots_negative_level by blast
  have none: "selectedItemType inp \<noteq> [] \<and> level inp \<noteq> None
        \<and> legendaryPots (allPots catalog (selectedItemType inp) (level inp)) = [] \<longrightarrow>
      handleCalculate cfg catalog inp res =
        \<lparr> brightResult = Some \<lparr> shownProbability = 0, avgCubes = None, p25 = Infinity,
                                 p50 = Infinity, p75 = Infinity, p90 = Infinity \<rparr>,
          glowingResult = Some \<lparr> shownProbability = 0, avgCubes = None, p25 = Infinity,
                                  p50 = Infinity, p75 = Infinity, p90 = Infinity \<rparr> \<rparr>"
    by (simp add: handleCalculate_def Let_def calcProb_no_legendary buildResult_zero)
  from guard nan neg none show ?thesis by blast
qed


theorem handleCalculate_degenerate_witness:
  "handleCalculate demoConfig demoPots (demoInputs\<lparr>selectedItemType := []\<rparr>) noResults = noResults
   \<and> handleCalculate demoConfig demoPots (demoInputs\<lparr>level := None\<rparr>) noResults = noResults
   \<and> allPots demoPots ''Hat'' None = []
   \<and> allPots demoPots ''Hat'' (Some (- 5)) = []
   \<and> handleCalculate demoConfig demoPots (demoInputs\<lparr>level := Some (- 5)\<rparr>) noResults
       = \<lparr> brightResult = Some zeroResult, glowingResult = Some zeroResult \<rparr>"
proof -
  have a: "handleCalculate demoConfig demoPots (demoInputs\<lparr>selectedItemType := []\<rparr>) noResults
             = noResults"
    using handleCalculate_degenerate [of "demoInputs\<lparr>selectedItemType := []\<rparr>"] by simp
  have b: "handleCalculate demoConfig demoPots (demoInputs\<lparr>level := None\<rparr>) noResults = noResults"
    using handleCalculate_degenerate [of "demoInputs\<lparr>level := None\<rparr>"] by simp
  have c: "allPots demoPots ''Hat'' None = []"
    using handleCalculate_degenerate [of _ _ demoPots] by blast
  have d: "allPots demoPots it (Some (- 5)) = []" for it
    using handleCalculate_degenerate [of _ _ demoPots _ _ "- 5"] demo_rangeMin by simp
  have "selectedItemType (demoInputs\<lparr>level := Some (- 5)\<rparr>) \<noteq> []"
    by (simp add: demoInputs_def)
  moreover have "legendaryPots (allPots demoPots
      (selectedItemType (demoInputs\<lparr>level := Some (- 5)\<rparr>))
      (level (demoInputs\<lparr>level := Some (- 5)\<rparr>))) = []"
    by (simp add: d legendaryPots_def)
  ultimately have e: "handleCalculate demoConfig demoPots (demoInputs\<lparr>level := Some (- 5)\<rparr>) noResults
       = \<lparr> brightResult = Some zeroResult, glowingResult = Some zeroResult \<rparr>"
    using handleCalculate_degenerate [of "demoInputs\<lparr>level := Some (- 5)\<rparr>" demoConfig demoPots noResults]
    by (simp add: zeroResult_def)
  from a b c d e show ?thesis by blast
qed

text \<open>
  Claim C7 as stated fails: with an empty item type no result is produced, and with a
  level that is not a number a result of 90 percent shown before stays as it is.
\<close>

theorem handleCalculate_no_zero_counterexample:
  "brightResult (handleCalculate demoConfig demoPots (demoInputs\<lparr>selectedItemType := []\<rparr>)
      noResults) = None
   \<and> map_option shownProbability
        (brightResult (handleCalculate demoConfig demoPots (demoInputs\<lparr>level := None\<rparr>)
           \<lparr> brightResult = Some (buildResult (9 / 10)), glowingResult = None \<rparr>)) = Some 90"
  by (simp add: handleCalculate_def noResults_def buildResult_def toFixed_def)


end
